theory Spec2Isabelle
  imports Complex_Main "HOL-Library.Sublist"
begin

section \<open>The model-deployment skeleton: a small Flask service\<close>

text \<open>
  The program is \<^verbatim>\<open>examples/model-deployment-skeleton/app.py\<close>:
  \<^verbatim>\<open>
  app = Flask(__name__)

  @app.route('/health')
  def health():
      return jsonify({'status': 'ok'})

  @app.route('/predict', methods=['POST','GET'])
  def predict():
      if request.method == 'POST' and request.is_json:
          data = request.get_json()
          return jsonify({'prediction': 'dummy', 'input': data})
      return jsonify({'prediction': 'dummy'})
  \<close>
  The application object, the two view functions and the two route registrations are the
  program. What a request to the service answers is decided together with the framework
  the program is written against (Flask on Werkzeug's router), which is not part of the
  repository. The part of the framework the program calls is modelled below, each
  definition under the name of the framework function it stands for, and kept apart from
  the program's own definitions. That part includes the route for static files, which
  \<^verbatim>\<open>Flask(__name__)\<close> registers before the program adds its own.
\<close>

subsection \<open>Data\<close>

text \<open>
  A JSON value as Python's \<^verbatim>\<open>json.loads\<close> returns it: \<^verbatim>\<open>None\<close>, a bool, an int
  (unbounded), a float, a str, a list or a dict. A dict keeps its insertion order, so an
  object is an association list. The program never computes with a number; it only
  passes the value on.
\<close>

datatype json =
    JNull
  | JBool bool
  | JInt int
  | JFloat real
  | JString string
  | JArray "json list"
  | JObject "(string \<times> json) list"

text \<open>
  What the program and the framework read when a request is served:
  \<^verbatim>\<open>request.method\<close> (Werkzeug stores it in upper case), the path as the server hands
  it over (\<^verbatim>\<open>PATH_INFO\<close>), \<^verbatim>\<open>request.mimetype\<close> (the Content-Type without its
  parameters, in lower case, empty when the header is absent), the outcome of
  \<^verbatim>\<open>json.loads\<close> on the body (\<open>None\<close> where it raises \<^verbatim>\<open>ValueError\<close>, as it does on an
  empty body and on text that is not JSON), and what the static-file view finds on disk at
  that moment for the file the path names: its contents, or \<open>None\<close> where the
  application's static folder has no such file. The last is read by the static route
  only; the program's own view functions never look at it.
\<close>

record request =
  "method" :: string
  path_info :: string
  mimetype :: string
  body_json :: "json option"
  static_file :: "string option"

text \<open>
  \<^verbatim>\<open>request.path\<close>, the path of the request as the framework has it:
  \<^verbatim>\<open>"/" + path_info.lstrip("/")\<close>, so it starts with exactly one slash.
\<close>

definition path :: "request \<Rightarrow> string" where
  "path r = CHR ''/'' # dropWhile (\<lambda>c. c = CHR ''/'') (path_info r)"

text \<open>
  A response: the status code and the body. A JSON body is kept as the value that was
  serialised, a file by its contents; the framework's own error and redirect pages are
  not looked into.
\<close>

datatype content = JSON json | File string | Default_page | No_body

record response =
  status :: nat
  body :: content

text \<open>The HTTP exceptions of Werkzeug that can arise here, with their status codes.\<close>

datatype http_exception =
    BadRequest
  | NotFound
  | MethodNotAllowed
  | UnsupportedMediaType
  | RequestRedirect string

fun code :: "http_exception \<Rightarrow> nat" where
  "code BadRequest = 400"
| "code NotFound = 404"
| "code MethodNotAllowed = 405"
| "code UnsupportedMediaType = 415"
| "code (RequestRedirect new_url) = 308"

subsection \<open>Framework functions the view functions call\<close>

text \<open>\<^verbatim>\<open>flask.jsonify\<close>: a response with status 200 whose body is the serialised value.\<close>

definition jsonify :: "json \<Rightarrow> response" where
  "jsonify v = \<lparr>status = 200, body = JSON v\<rparr>"

text \<open>
  \<^verbatim>\<open>Request.is_json\<close>: the mimetype is \<^verbatim>\<open>application/json\<close> or of the form
  \<^verbatim>\<open>application/*+json\<close>. The body is not looked at.
\<close>

definition is_json :: "request \<Rightarrow> bool" where
  "is_json r \<longleftrightarrow>
     mimetype r = ''application/json''
     \<or> (prefix ''application/'' (mimetype r) \<and> suffix ''+json'' (mimetype r))"

text \<open>
  \<^verbatim>\<open>Request.get_json()\<close> with its default arguments (\<^verbatim>\<open>force=False, silent=False\<close>):
  without a JSON mimetype it does not parse (status 415 since Flask 2.1); with one it
  parses the body, and a parse error goes to \<^verbatim>\<open>on_json_loading_failed\<close>, which raises
  \<^verbatim>\<open>BadRequest\<close>.
\<close>

definition get_json :: "request \<Rightarrow> http_exception + json" where
  "get_json r =
     (if \<not> is_json r then Inl UnsupportedMediaType
      else case body_json r of None \<Rightarrow> Inl BadRequest | Some v \<Rightarrow> Inr v)"

subsection \<open>The program: the two view functions\<close>

definition health :: "request \<Rightarrow> http_exception + response" where
  "health r = Inr (jsonify (JObject [(''status'', JString ''ok'')]))"

definition predict :: "request \<Rightarrow> http_exception + response" where
  "predict r =
     (if method r = ''POST'' \<and> is_json r then
        (case get_json r of
           Inl e \<Rightarrow> Inl e
         | Inr data \<Rightarrow>
             Inr (jsonify (JObject [(''prediction'', JString ''dummy''), (''input'', data)])))
      else Inr (jsonify (JObject [(''prediction'', JString ''dummy'')])))"

subsection \<open>Framework: the static-file view\<close>

text \<open>
  \<^verbatim>\<open>Flask.send_static_file\<close>, the view function of the static route: the file's
  contents with status 200, or \<^verbatim>\<open>NotFound\<close> where \<^verbatim>\<open>send_from_directory\<close> finds no
  file of that name in the static folder. (Conditional and range requests, which depend
  on request headers, are left out.)
\<close>

definition send_static_file :: "request \<Rightarrow> http_exception + response" where
  "send_static_file r =
     (case static_file r of
        None \<Rightarrow> Inl NotFound
      | Some data \<Rightarrow> Inr \<lparr>status = 200, body = File data\<rparr>)"

subsection \<open>The route table\<close>

text \<open>
  An endpoint names a view function (Flask uses the function's name; \<^verbatim>\<open>static\<close> is the
  framework's own), and \<open>view_functions\<close> is the table from endpoints to functions.
\<close>

datatype endpoint = Static | Health | Predict

fun view_functions :: "endpoint \<Rightarrow> request \<Rightarrow> http_exception + response" where
  "view_functions Static = send_static_file"
| "view_functions Health = health"
| "view_functions Predict = predict"

record url_rule =
  rule_path :: string
  methods :: "string set"
  endpoint :: endpoint
  provide_automatic_options :: bool

record flask =
  url_map :: "url_rule list"

text \<open>
  \<^verbatim>\<open>app.route(rule, methods=...)\<close> is \<^verbatim>\<open>Flask.add_url_rule\<close>: the methods default to
  \<^verbatim>\<open>("GET",)\<close>; unless the caller lists \<^verbatim>\<open>OPTIONS\<close> itself, \<^verbatim>\<open>OPTIONS\<close> is added and
  answered by the framework; Werkzeug's \<^verbatim>\<open>Rule\<close> adds \<^verbatim>\<open>HEAD\<close> where \<^verbatim>\<open>GET\<close> is
  allowed. The rule is appended to the map. (The framework also puts the method names in
  upper case; the program writes them so.)
\<close>

definition route :: "string \<Rightarrow> string list option \<Rightarrow> endpoint \<Rightarrow> flask \<Rightarrow> flask" where
  "route p ms ep a =
     (let given = (case ms of None \<Rightarrow> {''GET''} | Some l \<Rightarrow> set l);
          auto_options = (''OPTIONS'' \<notin> given);
          required = (if auto_options then {''OPTIONS''} else {});
          allowed = given \<union> required;
          allowed' = (if ''HEAD'' \<notin> allowed \<and> ''GET'' \<in> allowed
                      then insert ''HEAD'' allowed else allowed)
      in a\<lparr>url_map := url_map a @
            [\<lparr>rule_path = p, methods = allowed', endpoint = ep,
              provide_automatic_options = auto_options\<rparr>]\<rparr>)"

text \<open>
  \<^verbatim>\<open>Flask(__name__)\<close>: with the default \<^verbatim>\<open>static_folder="static"\<close> the constructor
  registers the route \<^verbatim>\<open>/static/<path:filename>\<close> for the endpoint \<^verbatim>\<open>static\<close>, with the
  default methods, on an empty map.
\<close>

definition Flask :: flask where
  "Flask = route ''/static/<path:filename>'' None Static \<lparr>url_map = []\<rparr>"

text \<open>The module's top level: the application object after both decorators have run.\<close>

definition app :: flask where
  "app = route ''/predict'' (Some [''POST'', ''GET'']) Predict
           (route ''/health'' None Health Flask)"

subsection \<open>Framework: matching and dispatch\<close>

text \<open>
  Werkzeug's router (\<^verbatim>\<open>MapAdapter.match\<close> over \<^verbatim>\<open>StateMachineMatcher.match\<close>,
  Werkzeug 2.2 and later) for the two kinds of rule that occur here: a fixed path without
  a trailing slash, as both rules of the program are, and a fixed prefix followed by the
  converter \<^verbatim>\<open><path:filename>\<close>, as the static rule is. The path it matches is
  \<^verbatim>\<open>f"/{path_info.lstrip('/')}" if path_info else ""\<close>. A fixed rule matches a path
  equal to its own (with \<^verbatim>\<open>strict_slashes\<close>, \<^verbatim>\<open>/health/\<close> does not match \<^verbatim>\<open>/health\<close>);
  a rule with the path converter matches its prefix followed by a name that is not empty
  and does not start with a slash (the converter's pattern is \<^verbatim>\<open>[^/].*?\<close>). The rule
  must also allow the method. When nothing matches, the path is tried again with slashes
  merged (\<^verbatim>\<open>merge_slashes\<close> is on by default: \<^verbatim>\<open>re.sub("/{2,}?", "/", path)\<close>, which
  rewrites each pair of slashes, left to right, to one); a match there is answered by a
  redirect to the merged path. Otherwise the answer is \<^verbatim>\<open>MethodNotAllowed\<close> if some rule
  had the path but not the method, and \<^verbatim>\<open>NotFound\<close> if not.
\<close>

definition path_part :: "request \<Rightarrow> string" where
  "path_part r = (if path_info r = [] then [] else path r)"

definition converter_prefix :: "string \<Rightarrow> string option" where
  \<comment> \<open>the fixed part of a rule that ends in \<^verbatim>\<open><path:filename>\<close>\<close>
  "converter_prefix rule =
     (if suffix ''<path:filename>'' rule
      then Some (take (length rule - length ''<path:filename>'') rule)
      else None)"

definition rule_matches :: "string \<Rightarrow> string \<Rightarrow> bool" where
  "rule_matches rule p =
     (case converter_prefix rule of
        None \<Rightarrow> rule = p
      | Some pre \<Rightarrow>
          prefix pre p
          \<and> (case drop (length pre) p of [] \<Rightarrow> False | c # cs \<Rightarrow> c \<noteq> CHR ''/''))"

fun merge_slashes :: "string \<Rightarrow> string" where
  "merge_slashes (a # b # cs) =
     (if a = CHR ''/'' \<and> b = CHR ''/'' then CHR ''/'' # merge_slashes cs
      else a # merge_slashes (b # cs))"
| "merge_slashes cs = cs"

definition find_rule :: "url_rule list \<Rightarrow> string \<Rightarrow> string \<Rightarrow> url_rule option" where
  "find_rule rules p m = find (\<lambda>rl. rule_matches (rule_path rl) p \<and> m \<in> methods rl) rules"

definition have_match_for :: "url_rule list \<Rightarrow> string \<Rightarrow> bool" where
  "have_match_for rules p = list_ex (\<lambda>rl. rule_matches (rule_path rl) p) rules"

definition match_request :: "flask \<Rightarrow> request \<Rightarrow> http_exception + url_rule" where
  "match_request a r =
     (case find_rule (url_map a) (path_part r) (method r) of
        Some rl \<Rightarrow> Inr rl
      | None \<Rightarrow>
          (case find_rule (url_map a) (merge_slashes (path_part r)) (method r) of
             Some rl \<Rightarrow> Inl (RequestRedirect (merge_slashes (path_part r)))
           | None \<Rightarrow>
               if have_match_for (url_map a) (path_part r)
                  \<or> have_match_for (url_map a) (merge_slashes (path_part r))
               then Inl MethodNotAllowed else Inl NotFound))"

text \<open>
  \<^verbatim>\<open>Flask.make_default_options_response\<close>: status 200, an \<^verbatim>\<open>Allow\<close> header, no body.
\<close>

definition make_default_options_response :: response where
  "make_default_options_response = \<lparr>status = 200, body = No_body\<rparr>"

text \<open>
  \<^verbatim>\<open>Flask.dispatch_request\<close>: a routing exception is raised again; an \<^verbatim>\<open>OPTIONS\<close>
  request to a rule with automatic options is answered by the framework; every other
  request goes to the rule's view function.
\<close>

definition dispatch_request :: "flask \<Rightarrow> request \<Rightarrow> http_exception + response" where
  "dispatch_request a r =
     (case match_request a r of
        Inl e \<Rightarrow> Inl e
      | Inr rl \<Rightarrow>
          if provide_automatic_options rl \<and> method r = ''OPTIONS''
          then Inr make_default_options_response
          else view_functions (endpoint rl) r)"

text \<open>
  \<^verbatim>\<open>Flask.handle_http_exception\<close> with no error handler registered (the program
  registers none): the exception is the response, with its code and its default page.
\<close>

definition handle_http_exception :: "http_exception \<Rightarrow> response" where
  "handle_http_exception e = \<lparr>status = code e, body = Default_page\<rparr>"

definition full_dispatch_request :: "flask \<Rightarrow> request \<Rightarrow> response" where
  "full_dispatch_request a r =
     (case dispatch_request a r of
        Inl e \<Rightarrow> handle_http_exception e
      | Inr resp \<Rightarrow> resp)"

text \<open>
  \<^verbatim>\<open>Flask.wsgi_app\<close>: one request, one response, next to the application object that
  served it. A \<^verbatim>\<open>HEAD\<close> request is answered with the headers only.
\<close>

definition wsgi_app :: "flask \<Rightarrow> request \<Rightarrow> flask \<times> response" where
  "wsgi_app a r =
     (let resp = full_dispatch_request a r
      in (a, if method r = ''HEAD'' then resp\<lparr>body := No_body\<rparr> else resp))"

text \<open>The keys of a JSON body (none when the body is not an object).\<close>

fun keys :: "content \<Rightarrow> string list" where
  "keys (JSON (JObject kvs)) = map fst kvs"
| "keys c = []"

subsection \<open>Sample requests\<close>

text \<open>The requests of the specification's examples, and some beside them.\<close>

definition get_health :: request where
  "get_health = \<lparr>method = ''GET'', path_info = ''/health'', mimetype = [], body_json = None,
      static_file = None\<rparr>"

definition post_health :: request where
  "post_health = \<lparr>method = ''POST'', path_info = ''/health'', mimetype = [], body_json = None,
      static_file = None\<rparr>"

definition get_predict_with_body :: request where
  "get_predict_with_body =
     \<lparr>method = ''GET'', path_info = ''/predict'', mimetype = ''application/json'',
      body_json = Some (JObject [(''x'', JInt 1)]),
      static_file = None\<rparr>"

definition post_predict_json :: request where
  "post_predict_json =
     \<lparr>method = ''POST'', path_info = ''/predict'', mimetype = ''application/json'',
      body_json = Some (JObject [(''x'', JInt 1)]),
      static_file = None\<rparr>"

definition post_predict_untyped :: request where
  \<comment> \<open>the same body, sent without a JSON Content-Type\<close>
  "post_predict_untyped =
     \<lparr>method = ''POST'', path_info = ''/predict'', mimetype = ''text/plain'',
      body_json = Some (JObject [(''x'', JInt 1)]),
      static_file = None\<rparr>"

definition post_predict_hello :: request where
  \<comment> \<open>the plain text \<^verbatim>\<open>hello\<close>, which is not JSON\<close>
  "post_predict_hello =
     \<lparr>method = ''POST'', path_info = ''/predict'', mimetype = ''text/plain'', body_json = None,
      static_file = None\<rparr>"

definition post_predict_broken :: request where
  \<comment> \<open>a JSON Content-Type on a body that does not parse\<close>
  "post_predict_broken =
     \<lparr>method = ''POST'', path_info = ''/predict'', mimetype = ''application/json'',
      body_json = None,
      static_file = None\<rparr>"

definition put_predict :: request where
  "put_predict = \<lparr>method = ''PUT'', path_info = ''/predict'', mimetype = [], body_json = None,
      static_file = None\<rparr>"

definition get_unknown :: request where
  "get_unknown = \<lparr>method = ''GET'', path_info = ''/unknown'', mimetype = [], body_json = None,
      static_file = None\<rparr>"

definition post_static :: request where
  "post_static =
     \<lparr>method = ''POST'', path_info = ''/static/x.txt'', mimetype = [], body_json = None,
      static_file = None\<rparr>"

definition get_static_file :: request where
  \<comment> \<open>a file that the static folder has\<close>
  "get_static_file =
     \<lparr>method = ''GET'', path_info = ''/static/x.txt'', mimetype = [], body_json = None,
      static_file = Some ''hello''\<rparr>"

definition get_static_doubled :: request where
  "get_static_doubled =
     \<lparr>method = ''GET'', path_info = ''/static//x.txt'', mimetype = [], body_json = None,
      static_file = Some ''hello''\<rparr>"

definition get_slash_slash_health :: request where
  "get_slash_slash_health =
     \<lparr>method = ''GET'', path_info = ''//health'', mimetype = [], body_json = None,
      static_file = None\<rparr>"

section \<open>Properties\<close>

subsection \<open>The route table and the matcher\<close>

lemma url_map_app:
  "url_map app =
     [\<lparr>rule_path = ''/static/<path:filename>'', methods = {''GET'', ''HEAD'', ''OPTIONS''},
        endpoint = Static, provide_automatic_options = True\<rparr>,
      \<lparr>rule_path = ''/health'', methods = {''GET'', ''HEAD'', ''OPTIONS''}, endpoint = Health,
        provide_automatic_options = True\<rparr>,
      \<lparr>rule_path = ''/predict'', methods = {''POST'', ''GET'', ''HEAD'', ''OPTIONS''},
        endpoint = Predict, provide_automatic_options = True\<rparr>]"
  by (auto simp: app_def route_def Flask_def Let_def)

lemma rule_matches_health: "rule_matches ''/health'' p \<longleftrightarrow> p = ''/health''"
  by (auto simp: rule_matches_def converter_prefix_def suffix_to_prefix)

lemma rule_matches_predict: "rule_matches ''/predict'' p \<longleftrightarrow> p = ''/predict''"
  by (auto simp: rule_matches_def converter_prefix_def suffix_to_prefix)

lemma rule_matches_static:
  "rule_matches ''/static/<path:filename>'' p \<longleftrightarrow>
     prefix ''/static/'' p
     \<and> (case drop (length ''/static/'') p of [] \<Rightarrow> False | c # cs \<Rightarrow> c \<noteq> CHR ''/'')"
  by (simp add: rule_matches_def converter_prefix_def suffix_to_prefix)

lemmas rule_matches_app = rule_matches_health rule_matches_predict rule_matches_static

lemma merge_slashes_no_slash:
  "CHR ''/'' \<notin> set (merge_slashes p) \<Longrightarrow> merge_slashes p = p"
  by (induction p rule: merge_slashes.induct) (auto split: if_splits)

lemma merge_slashes_hd: "merge_slashes p = c # x \<Longrightarrow> \<exists>y. p = c # y"
  by (induction p rule: merge_slashes.induct) (auto split: if_splits)

lemma merge_slashes_Cons: "a \<noteq> CHR ''/'' \<Longrightarrow> merge_slashes (a # p) = a # merge_slashes p"
  by (cases p) simp_all

text \<open>
  Merging slashes leaves the first segment of a path alone: a merged path that starts with
  a name and a slash comes from a path that starts with the same name and a slash.
\<close>

lemma merge_slashes_segment:
  assumes "CHR ''/'' \<notin> set w" and "merge_slashes p = w @ CHR ''/'' # x"
  shows "\<exists>y. p = w @ CHR ''/'' # y"
  using assms
proof (induction w arbitrary: p)
  case Nil
  then show ?case using merge_slashes_hd [of p "CHR ''/''" x] by simp
next
  case (Cons c w)
  from Cons.prems(2) obtain q where p: "p = c # q"
    using merge_slashes_hd [of p c "w @ CHR ''/'' # x"] by auto
  from Cons.prems(1) have c: "c \<noteq> CHR ''/''" and w: "CHR ''/'' \<notin> set w"
    by auto
  from Cons.prems(2) p c have "merge_slashes q = w @ CHR ''/'' # x"
    by (simp add: merge_slashes_Cons)
  with Cons.IH [OF w] obtain y where "q = w @ CHR ''/'' # y"
    by blast
  with p show ?case by simp
qed

text \<open>
  The path of a request starts with one slash only, so merging slashes starts after it.
\<close>

lemma merge_slashes_path_Cons:
  "merge_slashes (path r)
     = CHR ''/'' # merge_slashes (dropWhile (\<lambda>c. c = CHR ''/'') (path_info r))"
proof (cases "dropWhile (\<lambda>c. c = CHR ''/'') (path_info r)")
  case Nil
  show ?thesis unfolding path_def Nil by simp
next
  case (Cons b cs)
  then have "b \<noteq> CHR ''/''"
    using hd_dropWhile [of "\<lambda>c. c = CHR ''/''" "path_info r"] by auto
  then show ?thesis unfolding path_def Cons by simp
qed

text \<open>
  Merging slashes makes no path of a request into \<^verbatim>\<open>/health\<close> or \<^verbatim>\<open>/predict\<close> that was
  not that already, and brings no path under \<^verbatim>\<open>/static/\<close> that was not there already.
\<close>

lemma merge_slashes_path:
  assumes "merge_slashes (path r) = CHR ''/'' # w" and "CHR ''/'' \<notin> set w"
  shows "path r = CHR ''/'' # w"
proof -
  from assms have "merge_slashes (dropWhile (\<lambda>c. c = CHR ''/'') (path_info r)) = w"
    by (simp add: merge_slashes_path_Cons)
  with assms(2) have "dropWhile (\<lambda>c. c = CHR ''/'') (path_info r) = w"
    using merge_slashes_no_slash [of "dropWhile (\<lambda>c. c = CHR ''/'') (path_info r)"] by simp
  then show ?thesis by (simp add: path_def)
qed

lemma merge_slashes_path_static:
  assumes "prefix ''/static/'' (merge_slashes (path r))"
  shows "prefix ''/static/'' (path r)"
proof -
  from assms obtain x where "merge_slashes (path r) = ''/static/'' @ x"
    by (auto simp: prefix_def)
  then have "merge_slashes (dropWhile (\<lambda>c. c = CHR ''/'') (path_info r))
      = ''static'' @ CHR ''/'' # x"
    by (simp add: merge_slashes_path_Cons)
  then obtain y where "dropWhile (\<lambda>c. c = CHR ''/'') (path_info r) = ''static'' @ CHR ''/'' # y"
    using merge_slashes_segment [of "''static''"] by fastforce
  then show ?thesis by (simp add: path_def)
qed

lemma path_part_eq:
  assumes "path r = CHR ''/'' # c # w"
  shows "path_part r = path r"
  using assms by (auto simp: path_part_def path_def)

lemma path_part_cases: "path_part r = [] \<or> path_part r = path r"
  by (simp add: path_part_def)

lemma match_request_health:
  assumes "path r = ''/health''"
  shows "match_request app r =
     (if method r \<in> {''GET'', ''HEAD'', ''OPTIONS''}
      then Inr \<lparr>rule_path = ''/health'', methods = {''GET'', ''HEAD'', ''OPTIONS''},
                endpoint = Health, provide_automatic_options = True\<rparr>
      else Inl MethodNotAllowed)"
proof -
  from assms have "path_part r = ''/health''"
    using path_part_eq [of r] by simp
  then show ?thesis
    by (simp add: match_request_def find_rule_def have_match_for_def url_map_app
        rule_matches_app)
qed

lemma match_request_predict:
  assumes "path r = ''/predict''"
  shows "match_request app r =
     (if method r \<in> {''POST'', ''GET'', ''HEAD'', ''OPTIONS''}
      then Inr \<lparr>rule_path = ''/predict'', methods = {''POST'', ''GET'', ''HEAD'', ''OPTIONS''},
                endpoint = Predict, provide_automatic_options = True\<rparr>
      else Inl MethodNotAllowed)"
proof -
  from assms have "path_part r = ''/predict''"
    using path_part_eq [of r] by simp
  then show ?thesis
    by (simp add: match_request_def find_rule_def have_match_for_def url_map_app
        rule_matches_app)
qed

lemma match_request_other:
  assumes "path r \<noteq> ''/health''" and "path r \<noteq> ''/predict''"
    and "\<not> prefix ''/static/'' (path r)"
  shows "match_request app r = Inl NotFound"
proof -
  have h: "merge_slashes (path r) \<noteq> ''/health''"
    using assms(1) merge_slashes_path [of r "''health''"] by auto
  have p: "merge_slashes (path r) \<noteq> ''/predict''"
    using assms(2) merge_slashes_path [of r "''predict''"] by auto
  have s: "\<not> prefix ''/static/'' (merge_slashes (path r))"
    using assms(3) merge_slashes_path_static [of r] by blast
  from path_part_cases [of r] show ?thesis
  proof
    assume "path_part r = []"
    then show ?thesis
      by (simp add: match_request_def find_rule_def have_match_for_def url_map_app
          rule_matches_app)
  next
    assume "path_part r = path r"
    with assms h p s show ?thesis
      by (simp add: match_request_def find_rule_def have_match_for_def url_map_app
          rule_matches_app)
  qed
qed

text \<open>Leading slashes do not count: \<^verbatim>\<open>//health\<close> is the path \<^verbatim>\<open>/health\<close>.\<close>

lemma path_slash_slash_health: "path get_slash_slash_health = ''/health''"
  by (simp add: path_def get_slash_slash_health_def)

subsection \<open>What each route answers\<close>

lemma full_dispatch_health:
  assumes "path r = ''/health''"
  shows "full_dispatch_request app r =
     (if method r = ''OPTIONS'' then \<lparr>status = 200, body = No_body\<rparr>
      else if method r \<in> {''GET'', ''HEAD''}
      then \<lparr>status = 200, body = JSON (JObject [(''status'', JString ''ok'')])\<rparr>
      else \<lparr>status = 405, body = Default_page\<rparr>)"
  using assms
  by (simp add: full_dispatch_request_def dispatch_request_def match_request_health
      make_default_options_response_def handle_http_exception_def health_def jsonify_def)

lemma full_dispatch_predict:
  assumes "path r = ''/predict''"
  shows "full_dispatch_request app r =
     (if method r = ''OPTIONS'' then \<lparr>status = 200, body = No_body\<rparr>
      else if method r \<in> {''GET'', ''HEAD''}
      then \<lparr>status = 200, body = JSON (JObject [(''prediction'', JString ''dummy'')])\<rparr>
      else if method r = ''POST'' then
        (if is_json r then
           (case body_json r of
              None \<Rightarrow> \<lparr>status = 400, body = Default_page\<rparr>
            | Some v \<Rightarrow>
                \<lparr>status = 200,
                 body = JSON (JObject [(''prediction'', JString ''dummy''), (''input'', v)])\<rparr>)
         else \<lparr>status = 200, body = JSON (JObject [(''prediction'', JString ''dummy'')])\<rparr>)
      else \<lparr>status = 405, body = Default_page\<rparr>)"
  using assms
  by (auto simp: full_dispatch_request_def dispatch_request_def match_request_predict
      make_default_options_response_def handle_http_exception_def predict_def get_json_def
      jsonify_def split: option.splits)

lemma full_dispatch_other:
  assumes "path r \<noteq> ''/health''" and "path r \<noteq> ''/predict''"
    and "\<not> prefix ''/static/'' (path r)"
  shows "full_dispatch_request app r = \<lparr>status = 404, body = Default_page\<rparr>"
  using assms
  by (simp add: full_dispatch_request_def dispatch_request_def match_request_other
      handle_http_exception_def)

text \<open>
  The static route: a file that is there is served, and a doubled slash under
  \<^verbatim>\<open>/static/\<close> is redirected to the merged path.
\<close>

lemma static_route_samples:
  "snd (wsgi_app app get_static_file) = \<lparr>status = 200, body = File ''hello''\<rparr>"
  "status (snd (wsgi_app app get_static_doubled)) = 308"
  by (simp_all add: wsgi_app_def full_dispatch_request_def dispatch_request_def
      match_request_def find_rule_def have_match_for_def url_map_app rule_matches_app
      handle_http_exception_def send_static_file_def path_part_def path_def
      get_static_file_def get_static_doubled_def)

lemma snd_wsgi_app:
  "snd (wsgi_app a r) =
     (if method r = ''HEAD'' then (full_dispatch_request a r)\<lparr>body := No_body\<rparr>
      else full_dispatch_request a r)"
  by (simp add: wsgi_app_def Let_def)

subsection \<open>The health route\<close>

text \<open>
  Claim C3, as the specification states it: every request to \<^verbatim>\<open>/health\<close>, with any HTTP
  method and any body, is answered with status 200 and the JSON body
  \<^verbatim>\<open>{"status": "ok"}\<close>. The route is registered without a method list, so a \<^verbatim>\<open>POST\<close> is
  refused with status 405: the claim fails at \<open>post_health\<close>.
\<close>

theorem health_any_method_counterexample:
  "path post_health = ''/health''
   \<and> status (snd (wsgi_app app post_health)) = 405
   \<and> snd (wsgi_app app post_health)
       \<noteq> \<lparr>status = 200, body = JSON (JObject [(''status'', JString ''ok'')])\<rparr>"
  by (simp add: snd_wsgi_app full_dispatch_health post_health_def path_def)

text \<open>
  Claim C3, amended: every \<^verbatim>\<open>GET\<close> request to \<^verbatim>\<open>/health\<close>, with any Content-Type and any
  body, is answered with status 200 and the JSON body \<^verbatim>\<open>{"status": "ok"}\<close>.
\<close>

theorem health_get_ok:
  assumes "path r = ''/health''" and "method r = ''GET''"
  shows "snd (wsgi_app app r)
           = \<lparr>status = 200, body = JSON (JObject [(''status'', JString ''ok'')])\<rparr>"
  using assms by (simp add: snd_wsgi_app full_dispatch_health)

theorem health_get_ok_witness:
  "path get_health = ''/health'' \<and> method get_health = ''GET''
   \<and> snd (wsgi_app app get_health)
       = \<lparr>status = 200, body = JSON (JObject [(''status'', JString ''ok'')])\<rparr>"
proof -
  have p: "path get_health = ''/health''" and m: "method get_health = ''GET''"
    by (simp_all add: get_health_def path_def)
  from health_get_ok [OF p m] p m show ?thesis by simp
qed

text \<open>
  Claim C7: the \<^verbatim>\<open>/health\<close> handler cannot fail. The view function returns a response
  (never an exception) on every request, and every request that the router matches to
  the health rule is dispatched to a response, not to an error.
\<close>

theorem health_total:
  "(\<exists>resp. health r = Inr resp)
   \<and> (\<forall>rl. match_request app r = Inr rl \<and> endpoint rl = Health
         \<longrightarrow> (\<exists>resp. dispatch_request app r = Inr resp))"
  by (simp add: health_def dispatch_request_def)

theorem health_total_witness:
  "(\<exists>rl. match_request app get_health = Inr rl \<and> endpoint rl = Health)
   \<and> (\<exists>resp. health get_health = Inr resp)
   \<and> (\<exists>resp. dispatch_request app get_health = Inr resp)"
proof -
  have p: "path get_health = ''/health''"
    by (simp add: get_health_def path_def)
  have m: "\<exists>rl. match_request app get_health = Inr rl \<and> endpoint rl = Health"
    by (simp add: match_request_health [OF p]) (simp add: get_health_def path_def)
  with health_total [of get_health] show ?thesis by blast
qed

text \<open>
  Claim C8: the \<^verbatim>\<open>/health\<close> rule carries the methods \<^verbatim>\<open>GET\<close>, \<^verbatim>\<open>HEAD\<close> and
  \<^verbatim>\<open>OPTIONS\<close> and no other; a request to \<^verbatim>\<open>/health\<close> with any other method (\<^verbatim>\<open>POST\<close>,
  \<^verbatim>\<open>PUT\<close>, \<^verbatim>\<open>DELETE\<close>, ...) is answered with status 405, and one with these three
  with status 200.
\<close>

theorem health_method_not_allowed:
  "map methods (filter (\<lambda>rl. rule_path rl = ''/health'') (url_map app))
     = [{''GET'', ''HEAD'', ''OPTIONS''}]
   \<and> (path r = ''/health'' \<longrightarrow>
        status (snd (wsgi_app app r))
          = (if method r \<in> {''GET'', ''HEAD'', ''OPTIONS''} then 200 else 405))"
  by (simp add: url_map_app snd_wsgi_app full_dispatch_health)

theorem health_method_not_allowed_witness:
  "path post_health = ''/health'' \<and> method post_health = ''POST''
   \<and> status (snd (wsgi_app app post_health)) = 405"
  using health_method_not_allowed [of post_health] by (simp add: post_health_def path_def)

subsection \<open>The predict route\<close>

text \<open>
  Claim C1, as the specification states it: a \<^verbatim>\<open>POST\<close> to \<^verbatim>\<open>/predict\<close> whose body is
  valid JSON \<open>v\<close> is answered with \<^verbatim>\<open>{"prediction": "dummy", "input": v}\<close>. The code asks
  \<^verbatim>\<open>request.is_json\<close>, which reads the Content-Type and not the body: the body
  \<^verbatim>\<open>{"x": 1}\<close> sent as \<^verbatim>\<open>text/plain\<close> is not echoed.
\<close>

theorem predict_echo_counterexample:
  "method post_predict_untyped = ''POST'' \<and> path post_predict_untyped = ''/predict''
   \<and> body_json post_predict_untyped = Some (JObject [(''x'', JInt 1)])
   \<and> snd (wsgi_app app post_predict_untyped)
       = \<lparr>status = 200, body = JSON (JObject [(''prediction'', JString ''dummy'')])\<rparr>
   \<and> snd (wsgi_app app post_predict_untyped)
       \<noteq> \<lparr>status = 200,
           body = JSON (JObject [(''prediction'', JString ''dummy''),
                                 (''input'', JObject [(''x'', JInt 1)])])\<rparr>"
  by (simp add: snd_wsgi_app full_dispatch_predict is_json_def post_predict_untyped_def path_def)

text \<open>
  Claim C1, amended: for every JSON value \<open>v\<close>, a \<^verbatim>\<open>POST\<close> to \<^verbatim>\<open>/predict\<close> whose
  Content-Type is a JSON type and whose body is valid JSON \<open>v\<close> is answered with status
  200 and the body \<^verbatim>\<open>{"prediction": "dummy", "input": v}\<close>, the input being the parsed
  body itself.
\<close>

theorem predict_echo:
  assumes "method r = ''POST''" and "path r = ''/predict''"
    and "is_json r" and "body_json r = Some v"
  shows "snd (wsgi_app app r)
           = \<lparr>status = 200,
               body = JSON (JObject [(''prediction'', JString ''dummy''), (''input'', v)])\<rparr>"
  using assms by (simp add: snd_wsgi_app full_dispatch_predict)

theorem predict_echo_witness:
  "method post_predict_json = ''POST'' \<and> path post_predict_json = ''/predict''
   \<and> is_json post_predict_json
   \<and> body_json post_predict_json = Some (JObject [(''x'', JInt 1)])
   \<and> snd (wsgi_app app post_predict_json)
       = \<lparr>status = 200,
           body = JSON (JObject [(''prediction'', JString ''dummy''),
                                 (''input'', JObject [(''x'', JInt 1)])])\<rparr>"
proof -
  have m: "method post_predict_json = ''POST''" and p: "path post_predict_json = ''/predict''"
    and j: "is_json post_predict_json"
    and b: "body_json post_predict_json = Some (JObject [(''x'', JInt 1)])"
    by (simp_all add: post_predict_json_def path_def is_json_def)
  from predict_echo [OF m p j b] m p j b show ?thesis by simp
qed

text \<open>
  Claim C2, as the specification states it: a \<^verbatim>\<open>POST\<close> to \<^verbatim>\<open>/predict\<close> whose body is
  missing or not valid JSON is answered with status 200 and \<^verbatim>\<open>{"prediction": "dummy"}\<close>,
  never with a 4xx status. With a JSON Content-Type the code calls
  \<^verbatim>\<open>request.get_json()\<close>, which does not return on such a body: the answer is 400.
\<close>

theorem predict_fallback_counterexample:
  "method post_predict_broken = ''POST'' \<and> path post_predict_broken = ''/predict''
   \<and> body_json post_predict_broken = None
   \<and> status (snd (wsgi_app app post_predict_broken)) = 400
   \<and> snd (wsgi_app app post_predict_broken)
       \<noteq> \<lparr>status = 200, body = JSON (JObject [(''prediction'', JString ''dummy'')])\<rparr>"
  by (simp add: snd_wsgi_app full_dispatch_predict is_json_def post_predict_broken_def path_def)

text \<open>
  Claim C2, amended: a \<^verbatim>\<open>POST\<close> to \<^verbatim>\<open>/predict\<close> whose body is missing or not valid JSON
  and whose Content-Type is not a JSON type is answered with status 200 and the body
  \<^verbatim>\<open>{"prediction": "dummy"}\<close>, which has no input field; no fault is raised and no 4xx
  status returned for it.
\<close>

theorem predict_fallback:
  assumes "method r = ''POST''" and "path r = ''/predict''"
    and "body_json r = None" and "\<not> is_json r"
  shows "snd (wsgi_app app r)
           = \<lparr>status = 200, body = JSON (JObject [(''prediction'', JString ''dummy'')])\<rparr>
         \<and> ''input'' \<notin> set (keys (body (snd (wsgi_app app r))))
         \<and> (\<exists>resp. dispatch_request app r = Inr resp)"
proof -
  from assms have full: "full_dispatch_request app r
      = \<lparr>status = 200, body = JSON (JObject [(''prediction'', JString ''dummy'')])\<rparr>"
    by (simp add: full_dispatch_predict)
  from assms have "dispatch_request app r
      = Inr (jsonify (JObject [(''prediction'', JString ''dummy'')]))"
    by (simp add: dispatch_request_def match_request_predict predict_def)
  with full assms show ?thesis
    by (simp add: snd_wsgi_app)
qed

theorem predict_fallback_witness:
  "method post_predict_hello = ''POST'' \<and> path post_predict_hello = ''/predict''
   \<and> body_json post_predict_hello = None \<and> \<not> is_json post_predict_hello
   \<and> snd (wsgi_app app post_predict_hello)
       = \<lparr>status = 200, body = JSON (JObject [(''prediction'', JString ''dummy'')])\<rparr>"
proof -
  have m: "method post_predict_hello = ''POST''" and p: "path post_predict_hello = ''/predict''"
    and b: "body_json post_predict_hello = None" and j: "\<not> is_json post_predict_hello"
    by (simp_all add: post_predict_hello_def path_def is_json_def)
  from predict_fallback [OF m p b j] m p b j show ?thesis by simp
qed

text \<open>
  Claim C4: every \<^verbatim>\<open>GET\<close> request to \<^verbatim>\<open>/predict\<close>, whatever body and Content-Type come
  with it, is answered with status 200 and the body \<^verbatim>\<open>{"prediction": "dummy"}\<close>, and that
  body has no input key.
\<close>

theorem predict_get:
  assumes "method r = ''GET''" and "path r = ''/predict''"
  shows "snd (wsgi_app app r)
           = \<lparr>status = 200, body = JSON (JObject [(''prediction'', JString ''dummy'')])\<rparr>
         \<and> ''input'' \<notin> set (keys (body (snd (wsgi_app app r))))"
  using assms by (simp add: snd_wsgi_app full_dispatch_predict)

theorem predict_get_witness:
  "method get_predict_with_body = ''GET'' \<and> path get_predict_with_body = ''/predict''
   \<and> is_json get_predict_with_body
   \<and> body_json get_predict_with_body = Some (JObject [(''x'', JInt 1)])
   \<and> snd (wsgi_app app get_predict_with_body)
       = \<lparr>status = 200, body = JSON (JObject [(''prediction'', JString ''dummy'')])\<rparr>"
proof -
  have m: "method get_predict_with_body = ''GET''"
    and p: "path get_predict_with_body = ''/predict''"
    by (simp_all add: get_predict_with_body_def path_def)
  from predict_get [OF m p] m p show ?thesis
    by (simp add: is_json_def) (simp add: get_predict_with_body_def path_def)
qed

text \<open>
  Claim C9: for every \<^verbatim>\<open>POST\<close> to \<^verbatim>\<open>/predict\<close> whose Content-Type is a JSON type while
  the body does not parse, \<^verbatim>\<open>request.get_json()\<close> raises \<^verbatim>\<open>BadRequest\<close> and the answer
  has status 400; a \<^verbatim>\<open>POST\<close> is answered with the fallback body
  \<^verbatim>\<open>{"prediction": "dummy"}\<close> only when its Content-Type is not a JSON type.
\<close>

theorem predict_bad_json:
  assumes "method r = ''POST''" and "path r = ''/predict''"
  shows "(is_json r \<and> body_json r = None \<longrightarrow>
            get_json r = Inl BadRequest
            \<and> dispatch_request app r = Inl BadRequest
            \<and> status (snd (wsgi_app app r)) = 400)
         \<and> (body (snd (wsgi_app app r)) = JSON (JObject [(''prediction'', JString ''dummy'')])
              \<longrightarrow> \<not> is_json r)"
proof -
  have "dispatch_request app r = Inl BadRequest" if "is_json r" and "body_json r = None"
    using assms that
    by (simp add: dispatch_request_def match_request_predict predict_def get_json_def)
  with assms show ?thesis
    by (auto simp: snd_wsgi_app full_dispatch_predict get_json_def split: option.splits)
qed

theorem predict_bad_json_witness:
  "method post_predict_broken = ''POST'' \<and> path post_predict_broken = ''/predict''
   \<and> is_json post_predict_broken \<and> body_json post_predict_broken = None
   \<and> get_json post_predict_broken = Inl BadRequest
   \<and> status (snd (wsgi_app app post_predict_broken)) = 400
   \<and> method post_predict_hello = ''POST'' \<and> path post_predict_hello = ''/predict''
   \<and> body (snd (wsgi_app app post_predict_hello))
       = JSON (JObject [(''prediction'', JString ''dummy'')])
   \<and> \<not> is_json post_predict_hello"
proof -
  have m: "method post_predict_broken = ''POST''" and p: "path post_predict_broken = ''/predict''"
    and j: "is_json post_predict_broken" and b: "body_json post_predict_broken = None"
    by (simp_all add: post_predict_broken_def path_def is_json_def)
  have m': "method post_predict_hello = ''POST''" and p': "path post_predict_hello = ''/predict''"
    and j': "\<not> is_json post_predict_hello" and b': "body_json post_predict_hello = None"
    by (simp_all add: post_predict_hello_def path_def is_json_def)
  have fb: "body (snd (wsgi_app app post_predict_hello))
      = JSON (JObject [(''prediction'', JString ''dummy'')])"
    using m' p' j' by (simp add: snd_wsgi_app full_dispatch_predict)
  from predict_bad_json [OF m p] predict_bad_json [OF m' p'] m p j b m' p' fb
  show ?thesis by simp
qed

text \<open>
  Claim C10: the \<^verbatim>\<open>/predict\<close> rule carries the methods \<^verbatim>\<open>POST\<close> and \<^verbatim>\<open>GET\<close>, with
  \<^verbatim>\<open>HEAD\<close> and \<^verbatim>\<open>OPTIONS\<close> added by the framework, and no other; a request to
  \<^verbatim>\<open>/predict\<close> is answered with status 405 exactly when its method is not one of these.
\<close>

theorem predict_method_not_allowed:
  "map methods (filter (\<lambda>rl. rule_path rl = ''/predict'') (url_map app))
     = [{''POST'', ''GET'', ''HEAD'', ''OPTIONS''}]
   \<and> (path r = ''/predict'' \<longrightarrow>
        (status (snd (wsgi_app app r)) = 405
           \<longleftrightarrow> method r \<notin> {''POST'', ''GET'', ''HEAD'', ''OPTIONS''}))"
  by (auto simp: url_map_app snd_wsgi_app full_dispatch_predict split: option.splits)

theorem predict_method_not_allowed_witness:
  "path put_predict = ''/predict'' \<and> method put_predict = ''PUT''
   \<and> status (snd (wsgi_app app put_predict)) = 405"
  using predict_method_not_allowed [of put_predict] by (simp add: put_predict_def path_def)

subsection \<open>Other paths\<close>

text \<open>
  Claim C5, as the specification states it: every request whose path is neither
  \<^verbatim>\<open>/health\<close> nor \<^verbatim>\<open>/predict\<close> is answered with status 404. The application object
  comes with the framework's route for static files, \<^verbatim>\<open>/static/<path:filename>\<close>, which
  allows \<^verbatim>\<open>GET\<close>, \<^verbatim>\<open>HEAD\<close> and \<^verbatim>\<open>OPTIONS\<close>: a \<^verbatim>\<open>POST\<close> to \<^verbatim>\<open>/static/x.txt\<close> is
  refused with status 405, whether or not there is such a file.
\<close>

theorem not_found_counterexample:
  "path post_static \<noteq> ''/health'' \<and> path post_static \<noteq> ''/predict''
   \<and> status (snd (wsgi_app app post_static)) = 405
   \<and> status (snd (wsgi_app app post_static)) \<noteq> 404"
  by (simp add: snd_wsgi_app full_dispatch_request_def dispatch_request_def match_request_def
      find_rule_def have_match_for_def url_map_app rule_matches_app handle_http_exception_def
      path_part_def path_def post_static_def)

text \<open>
  Claim C5, amended: every request whose path is neither \<^verbatim>\<open>/health\<close> nor \<^verbatim>\<open>/predict\<close>
  and does not lie under \<^verbatim>\<open>/static/\<close> is answered with status 404, whatever its method;
  nothing is said of the body. The path is \<^verbatim>\<open>request.path\<close>, in which leading slashes
  count once.
\<close>

theorem not_found:
  assumes "path r \<noteq> ''/health''" and "path r \<noteq> ''/predict''"
    and "\<not> prefix ''/static/'' (path r)"
  shows "status (snd (wsgi_app app r)) = 404"
  using assms by (simp add: snd_wsgi_app full_dispatch_other)

theorem not_found_witness:
  "path get_unknown \<noteq> ''/health'' \<and> path get_unknown \<noteq> ''/predict''
   \<and> \<not> prefix ''/static/'' (path get_unknown)
   \<and> status (snd (wsgi_app app get_unknown)) = 404"
proof -
  have h: "path get_unknown \<noteq> ''/health''" and p: "path get_unknown \<noteq> ''/predict''"
    and s: "\<not> prefix ''/static/'' (path get_unknown)"
    by (simp_all add: get_unknown_def path_def)
  from not_found [OF h p s] h p s show ?thesis by simp
qed

end
